theory Spec2Isabelle
  imports Complex_Main
begin

section \<open>Shared ownership\<close>

text \<open>
  The caches of \<^verbatim>\<open>tw::GLShaderStore\<close> hold \<^verbatim>\<open>std::shared_ptr\<close> handles. A raw pointer
  is an address or null. A shared pointer is the pair of its control block (absent for the
  empty pointer) and the stored raw pointer; a control block counts its owners and remembers
  the pointer it will delete when the last owner goes away.
\<close>

type_synonym addr = nat
type_synonym raw_ptr = "addr option"

record ctrl_block =
  use_count :: nat
  owned :: raw_ptr

datatype shared_ptr = SharedPtr (sp_ctrl: "nat option") (sp_get: raw_ptr)

abbreviation nullptr :: shared_ptr where
  "nullptr \<equiv> SharedPtr None None"

record heap =
  alive :: "addr \<Rightarrow> bool"
  blocks :: "nat \<rightharpoonup> ctrl_block"
  next_block :: nat

text \<open>\<^verbatim>\<open>delete p\<close>: deleting the null pointer does nothing.\<close>

definition delete_raw :: "raw_ptr \<Rightarrow> heap \<Rightarrow> heap" where
  "delete_raw p h =
     (case p of None \<Rightarrow> h | Some a \<Rightarrow> h\<lparr>alive := (alive h)(a := False)\<rparr>)"

text \<open>
  \<^verbatim>\<open>std::shared_ptr<T>(p)\<close>: a new control block with one owner, also when \<^verbatim>\<open>p\<close> is null.
\<close>

definition sp_from_raw :: "raw_ptr \<Rightarrow> heap \<Rightarrow> shared_ptr \<times> heap" where
  "sp_from_raw p h =
     (let c = next_block h
      in (SharedPtr (Some c) p,
          h\<lparr>blocks := (blocks h)(c \<mapsto> \<lparr>use_count = 1, owned = p\<rparr>), next_block := c + 1\<rparr>))"

text \<open>
  Copy construction: one more owner of the same control block. A control block that is not
  on the heap belongs to a pointer that outlived its object; the language gives copying or
  releasing such a pointer no meaning, and the heap is left as it is.
\<close>

definition sp_copy :: "shared_ptr \<Rightarrow> heap \<Rightarrow> heap" where
  "sp_copy v h =
     (case sp_ctrl v of
        None \<Rightarrow> h
      | Some c \<Rightarrow>
          (case blocks h c of
             None \<Rightarrow> h
           | Some b \<Rightarrow> h\<lparr>blocks := (blocks h)(c \<mapsto> b\<lparr>use_count := use_count b + 1\<rparr>)\<rparr>))"

text \<open>
  Destruction or \<^verbatim>\<open>reset()\<close> of one owner: the last owner frees the control block and
  deletes the owned object.
\<close>

definition sp_release :: "shared_ptr \<Rightarrow> heap \<Rightarrow> heap" where
  "sp_release v h =
     (case sp_ctrl v of
        None \<Rightarrow> h
      | Some c \<Rightarrow>
          (case blocks h c of
             None \<Rightarrow> h
           | Some b \<Rightarrow>
               if use_count b \<le> 1
               then delete_raw (owned b) (h\<lparr>blocks := (blocks h)(c := None)\<rparr>)
               else h\<lparr>blocks := (blocks h)(c \<mapsto> b\<lparr>use_count := use_count b - 1\<rparr>)\<rparr>))"

section \<open>The unordered maps\<close>

type_synonym cache = "string \<rightharpoonup> shared_ptr"

text \<open>
  \<^verbatim>\<open>m[key]\<close> returns the entry of \<^verbatim>\<open>key\<close>, inserting an empty pointer first when there is
  none.
\<close>

definition subscript :: "cache \<Rightarrow> string \<Rightarrow> shared_ptr \<times> cache" where
  "subscript m key =
     (case m key of None \<Rightarrow> (nullptr, m(key \<mapsto> nullptr)) | Some v \<Rightarrow> (v, m))"

text \<open>\<^verbatim>\<open>m.emplace(key, v)\<close> stores a copy of \<^verbatim>\<open>v\<close> unless the key is taken.\<close>

definition emplace :: "cache \<Rightarrow> string \<Rightarrow> shared_ptr \<Rightarrow> heap \<Rightarrow> cache \<times> heap" where
  "emplace m key v h =
     (case m key of None \<Rightarrow> (m(key \<mapsto> v), sp_copy v h) | Some _ \<Rightarrow> (m, h))"

definition erase :: "cache \<Rightarrow> string \<Rightarrow> cache" where
  "erase m key = m(key := None)"

section \<open>The shader store\<close>

text \<open>
  Modelled from the spec: the logging collaborator \<^verbatim>\<open>Log::warning\<close> is outside the sources;
  a call appends one entry, holding the category and the message parts in the order given.
\<close>

datatype log_entry = Warning string "string list"

text \<open>
  The static members of \<^verbatim>\<open>tw::GLShaderStore\<close>, together with the log and the heap that its
  functions act on.
\<close>

record state =
  m_vertexShaders :: cache
  m_fragmentShaders :: cache
  m_geometryShaders :: cache
  m_tesselationEvaluationShaders :: cache
  m_tesselationControlShaders :: cache
  m_computeShaders :: cache
  m_shaderPrograms :: cache
  logged :: "log_entry list"
  heap :: heap

definition Log_warning :: "string \<Rightarrow> string list \<Rightarrow> state \<Rightarrow> state" where
  "Log_warning category parts s = s\<lparr>logged := logged s @ [Warning category parts]\<rparr>"

definition dquote :: string where
  "dquote = [CHR 0x22]"

subsection \<open>Vertex shaders\<close>

definition vertexShaderExists :: "string \<Rightarrow> state \<Rightarrow> bool \<times> state" where
  "vertexShaderExists key s =
     (if m_vertexShaders s key = None then (False, s) else (True, s))"

definition getVertexShader :: "string \<Rightarrow> state \<Rightarrow> shared_ptr \<times> state" where
  "getVertexShader key s =
     (case vertexShaderExists key s of (found, s1) \<Rightarrow>
        if \<not> found then (nullptr, s1)
        else (case subscript (m_vertexShaders s1) key of (v, m) \<Rightarrow>
                (v, s1\<lparr>m_vertexShaders := m, heap := sp_copy v (heap s1)\<rparr>)))"

definition logVertexShaderAlreadyExists :: "string \<Rightarrow> state \<Rightarrow> state" where
  "logVertexShaderAlreadyExists key s =
     Log_warning ''shaderstore''
       [''Vertex shader with '' @ dquote, key, dquote @ '' key already exists.''] s"

definition registerVertexShader :: "string \<Rightarrow> shared_ptr \<Rightarrow> state \<Rightarrow> bool \<times> state" where
  "registerVertexShader key vertexShader s =
     (case vertexShaderExists key s of (found, s1) \<Rightarrow>
        if found then (False, logVertexShaderAlreadyExists key s1)
        else (case emplace (m_vertexShaders s1) key vertexShader (heap s1) of (m, h) \<Rightarrow>
                (True, s1\<lparr>m_vertexShaders := m, heap := h\<rparr>)))"

definition registerVertexShader_raw :: "string \<Rightarrow> raw_ptr \<Rightarrow> state \<Rightarrow> bool \<times> state" where
  "registerVertexShader_raw key vertexShader s =
     (case sp_from_raw vertexShader (heap s) of (tmp, h) \<Rightarrow>
        (case registerVertexShader key tmp (s\<lparr>heap := h\<rparr>) of (r, s1) \<Rightarrow>
           (r, s1\<lparr>heap := sp_release tmp (heap s1)\<rparr>)))"

definition deleteVertexShader :: "string \<Rightarrow> state \<Rightarrow> state" where
  "deleteVertexShader key s =
     (case vertexShaderExists key s of (found, s1) \<Rightarrow>
        if \<not> found then s1
        else (case subscript (m_vertexShaders s1) key of (v, m) \<Rightarrow>
                (let s2 = s1\<lparr>m_vertexShaders := m(key \<mapsto> nullptr), heap := sp_release v (heap s1)\<rparr>
                 in s2\<lparr>m_vertexShaders := erase (m_vertexShaders s2) key\<rparr>)))"

subsection \<open>Fragment shaders\<close>

definition fragmentShaderExists :: "string \<Rightarrow> state \<Rightarrow> bool \<times> state" where
  "fragmentShaderExists key s =
     (if m_fragmentShaders s key = None then (False, s) else (True, s))"

definition getFragmentShader :: "string \<Rightarrow> state \<Rightarrow> shared_ptr \<times> state" where
  "getFragmentShader key s =
     (case fragmentShaderExists key s of (found, s1) \<Rightarrow>
        if \<not> found then (nullptr, s1)
        else (case subscript (m_fragmentShaders s1) key of (v, m) \<Rightarrow>
                (v, s1\<lparr>m_fragmentShaders := m, heap := sp_copy v (heap s1)\<rparr>)))"

definition logFragmentShaderAlreadyExists :: "string \<Rightarrow> state \<Rightarrow> state" where
  "logFragmentShaderAlreadyExists key s =
     Log_warning ''shaderstore''
       [''Fragment shader with '' @ dquote, key, dquote @ '' key already exists.''] s"

definition registerFragmentShader :: "string \<Rightarrow> shared_ptr \<Rightarrow> state \<Rightarrow> bool \<times> state" where
  "registerFragmentShader key fragmentShader s =
     (case fragmentShaderExists key s of (found, s1) \<Rightarrow>
        if found then (False, logFragmentShaderAlreadyExists key s1)
        else (case emplace (m_fragmentShaders s1) key fragmentShader (heap s1) of (m, h) \<Rightarrow>
                (True, s1\<lparr>m_fragmentShaders := m, heap := h\<rparr>)))"

definition registerFragmentShader_raw :: "string \<Rightarrow> raw_ptr \<Rightarrow> state \<Rightarrow> bool \<times> state" where
  "registerFragmentShader_raw key fragmentShader s =
     (case sp_from_raw fragmentShader (heap s) of (tmp, h) \<Rightarrow>
        (case registerFragmentShader key tmp (s\<lparr>heap := h\<rparr>) of (r, s1) \<Rightarrow>
           (r, s1\<lparr>heap := sp_release tmp (heap s1)\<rparr>)))"

definition deleteFragmentShader :: "string \<Rightarrow> state \<Rightarrow> state" where
  "deleteFragmentShader key s =
     (case fragmentShaderExists key s of (found, s1) \<Rightarrow>
        if \<not> found then s1
        else (case subscript (m_fragmentShaders s1) key of (v, m) \<Rightarrow>
                (let s2 = s1\<lparr>m_fragmentShaders := m(key \<mapsto> nullptr), heap := sp_release v (heap s1)\<rparr>
                 in s2\<lparr>m_fragmentShaders := erase (m_fragmentShaders s2) key\<rparr>)))"

subsection \<open>Geometry shaders\<close>

definition geometryShaderExists :: "string \<Rightarrow> state \<Rightarrow> bool \<times> state" where
  "geometryShaderExists key s =
     (if m_geometryShaders s key = None then (False, s) else (True, s))"

definition getGeometryShader :: "string \<Rightarrow> state \<Rightarrow> shared_ptr \<times> state" where
  "getGeometryShader key s =
     (case geometryShaderExists key s of (found, s1) \<Rightarrow>
        if \<not> found then (nullptr, s1)
        else (case subscript (m_geometryShaders s1) key of (v, m) \<Rightarrow>
                (v, s1\<lparr>m_geometryShaders := m, heap := sp_copy v (heap s1)\<rparr>)))"

definition logGeometryShaderAlreadyExists :: "string \<Rightarrow> state \<Rightarrow> state" where
  "logGeometryShaderAlreadyExists key s =
     Log_warning ''shaderstore''
       [''Geometry shader with '' @ dquote, key, dquote @ '' key already exists.''] s"

definition registerGeometryShader :: "string \<Rightarrow> shared_ptr \<Rightarrow> state \<Rightarrow> bool \<times> state" where
  "registerGeometryShader key geometryShader s =
     (case geometryShaderExists key s of (found, s1) \<Rightarrow>
        if found then (False, logGeometryShaderAlreadyExists key s1)
        else (case emplace (m_geometryShaders s1) key geometryShader (heap s1) of (m, h) \<Rightarrow>
                (True, s1\<lparr>m_geometryShaders := m, heap := h\<rparr>)))"

definition registerGeometryShader_raw :: "string \<Rightarrow> raw_ptr \<Rightarrow> state \<Rightarrow> bool \<times> state" where
  "registerGeometryShader_raw key geometryShader s =
     (case sp_from_raw geometryShader (heap s) of (tmp, h) \<Rightarrow>
        (case registerGeometryShader key tmp (s\<lparr>heap := h\<rparr>) of (r, s1) \<Rightarrow>
           (r, s1\<lparr>heap := sp_release tmp (heap s1)\<rparr>)))"

definition deleteGeometryShader :: "string \<Rightarrow> state \<Rightarrow> state" where
  "deleteGeometryShader key s =
     (case geometryShaderExists key s of (found, s1) \<Rightarrow>
        if \<not> found then s1
        else (case subscript (m_geometryShaders s1) key of (v, m) \<Rightarrow>
                (let s2 = s1\<lparr>m_geometryShaders := m(key \<mapsto> nullptr), heap := sp_release v (heap s1)\<rparr>
                 in s2\<lparr>m_geometryShaders := erase (m_geometryShaders s2) key\<rparr>)))"

subsection \<open>Tesselation evaluation shaders\<close>

definition tesselationEvaluationShaderExists :: "string \<Rightarrow> state \<Rightarrow> bool \<times> state" where
  "tesselationEvaluationShaderExists key s =
     (if m_tesselationEvaluationShaders s key = None then (False, s) else (True, s))"

definition getTesselationEvaluationShader :: "string \<Rightarrow> state \<Rightarrow> shared_ptr \<times> state" where
  "getTesselationEvaluationShader key s =
     (case tesselationEvaluationShaderExists key s of (found, s1) \<Rightarrow>
        if \<not> found then (nullptr, s1)
        else (case subscript (m_tesselationEvaluationShaders s1) key of (v, m) \<Rightarrow>
                (v, s1\<lparr>m_tesselationEvaluationShaders := m, heap := sp_copy v (heap s1)\<rparr>)))"

definition logTesselationEvaluationShaderAlreadyExists :: "string \<Rightarrow> state \<Rightarrow> state" where
  "logTesselationEvaluationShaderAlreadyExists key s =
     Log_warning ''shaderstore''
       [''Tesselation evaluation shader with '' @ dquote, key, dquote @ '' key already exists.''] s"

definition registerTesselationEvaluationShader :: "string \<Rightarrow> shared_ptr \<Rightarrow> state \<Rightarrow> bool \<times> state" where
  "registerTesselationEvaluationShader key tesselationEvaluationShader s =
     (case tesselationEvaluationShaderExists key s of (found, s1) \<Rightarrow>
        if found then (False, logTesselationEvaluationShaderAlreadyExists key s1)
        else (case emplace (m_tesselationEvaluationShaders s1) key tesselationEvaluationShader (heap s1) of (m, h) \<Rightarrow>
                (True, s1\<lparr>m_tesselationEvaluationShaders := m, heap := h\<rparr>)))"

definition registerTesselationEvaluationShader_raw :: "string \<Rightarrow> raw_ptr \<Rightarrow> state \<Rightarrow> bool \<times> state" where
  "registerTesselationEvaluationShader_raw key tesselationEvaluationShader s =
     (case sp_from_raw tesselationEvaluationShader (heap s) of (tmp, h) \<Rightarrow>
        (case registerTesselationEvaluationShader key tmp (s\<lparr>heap := h\<rparr>) of (r, s1) \<Rightarrow>
           (r, s1\<lparr>heap := sp_release tmp (heap s1)\<rparr>)))"

definition deleteTesselationEvaluationShader :: "string \<Rightarrow> state \<Rightarrow> state" where
  "deleteTesselationEvaluationShader key s =
     (case tesselationEvaluationShaderExists key s of (found, s1) \<Rightarrow>
        if \<not> found then s1
        else (case subscript (m_tesselationEvaluationShaders s1) key of (v, m) \<Rightarrow>
                (let s2 = s1\<lparr>m_tesselationEvaluationShaders := m(key \<mapsto> nullptr), heap := sp_release v (heap s1)\<rparr>
                 in s2\<lparr>m_tesselationEvaluationShaders := erase (m_tesselationEvaluationShaders s2) key\<rparr>)))"

subsection \<open>Tesselation control shaders\<close>

definition tesselationControlShaderExists :: "string \<Rightarrow> state \<Rightarrow> bool \<times> state" where
  "tesselationControlShaderExists key s =
     (if m_tesselationControlShaders s key = None then (False, s) else (True, s))"

definition getTesselationControlShader :: "string \<Rightarrow> state \<Rightarrow> shared_ptr \<times> state" where
  "getTesselationControlShader key s =
     (case tesselationControlShaderExists key s of (found, s1) \<Rightarrow>
        if \<not> found then (nullptr, s1)
        else (case subscript (m_tesselationControlShaders s1) key of (v, m) \<Rightarrow>
                (v, s1\<lparr>m_tesselationControlShaders := m, heap := sp_copy v (heap s1)\<rparr>)))"

definition logTesselationControlShaderAlreadyExists :: "string \<Rightarrow> state \<Rightarrow> state" where
  "logTesselationControlShaderAlreadyExists key s =
     Log_warning ''shaderstore''
       [''Tesselation control shader with '' @ dquote, key, dquote @ '' key already exists.''] s"

definition registerTesselationControlShader :: "string \<Rightarrow> shared_ptr \<Rightarrow> state \<Rightarrow> bool \<times> state" where
  "registerTesselationControlShader key tesselationControlShader s =
     (case tesselationControlShaderExists key s of (found, s1) \<Rightarrow>
        if found then (False, logTesselationControlShaderAlreadyExists key s1)
        else (case emplace (m_tesselationControlShaders s1) key tesselationControlShader (heap s1) of (m, h) \<Rightarrow>
                (True, s1\<lparr>m_tesselationControlShaders := m, heap := h\<rparr>)))"

definition registerTesselationControlShader_raw :: "string \<Rightarrow> raw_ptr \<Rightarrow> state \<Rightarrow> bool \<times> state" where
  "registerTesselationControlShader_raw key tesselationControlShader s =
     (case sp_from_raw tesselationControlShader (heap s) of (tmp, h) \<Rightarrow>
        (case registerTesselationControlShader key tmp (s\<lparr>heap := h\<rparr>) of (r, s1) \<Rightarrow>
           (r, s1\<lparr>heap := sp_release tmp (heap s1)\<rparr>)))"

definition deleteTesselationControlShader :: "string \<Rightarrow> state \<Rightarrow> state" where
  "deleteTesselationControlShader key s =
     (case tesselationControlShaderExists key s of (found, s1) \<Rightarrow>
        if \<not> found then s1
        else (case subscript (m_tesselationControlShaders s1) key of (v, m) \<Rightarrow>
                (let s2 = s1\<lparr>m_tesselationControlShaders := m(key \<mapsto> nullptr), heap := sp_release v (heap s1)\<rparr>
                 in s2\<lparr>m_tesselationControlShaders := erase (m_tesselationControlShaders s2) key\<rparr>)))"

subsection \<open>Compute shaders\<close>

definition computeShaderExists :: "string \<Rightarrow> state \<Rightarrow> bool \<times> state" where
  "computeShaderExists key s =
     (if m_computeShaders s key = None then (False, s) else (True, s))"

definition getComputeShader :: "string \<Rightarrow> state \<Rightarrow> shared_ptr \<times> state" where
  "getComputeShader key s =
     (case computeShaderExists key s of (found, s1) \<Rightarrow>
        if \<not> found then (nullptr, s1)
        else (case subscript (m_computeShaders s1) key of (v, m) \<Rightarrow>
                (v, s1\<lparr>m_computeShaders := m, heap := sp_copy v (heap s1)\<rparr>)))"

definition logComputeShaderAlreadyExists :: "string \<Rightarrow> state \<Rightarrow> state" where
  "logComputeShaderAlreadyExists key s =
     Log_warning ''shaderstore''
       [''Compute shader with '' @ dquote, key, dquote @ '' key already exists.''] s"

definition registerComputeShader :: "string \<Rightarrow> shared_ptr \<Rightarrow> state \<Rightarrow> bool \<times> state" where
  "registerComputeShader key computeShader s =
     (case computeShaderExists key s of (found, s1) \<Rightarrow>
        if found then (False, logComputeShaderAlreadyExists key s1)
        else (case emplace (m_computeShaders s1) key computeShader (heap s1) of (m, h) \<Rightarrow>
                (True, s1\<lparr>m_computeShaders := m, heap := h\<rparr>)))"

definition registerComputeShader_raw :: "string \<Rightarrow> raw_ptr \<Rightarrow> state \<Rightarrow> bool \<times> state" where
  "registerComputeShader_raw key computeShader s =
     (case sp_from_raw computeShader (heap s) of (tmp, h) \<Rightarrow>
        (case registerComputeShader key tmp (s\<lparr>heap := h\<rparr>) of (r, s1) \<Rightarrow>
           (r, s1\<lparr>heap := sp_release tmp (heap s1)\<rparr>)))"

definition deleteComputeShader :: "string \<Rightarrow> state \<Rightarrow> state" where
  "deleteComputeShader key s =
     (case computeShaderExists key s of (found, s1) \<Rightarrow>
        if \<not> found then s1
        else (case subscript (m_computeShaders s1) key of (v, m) \<Rightarrow>
                (let s2 = s1\<lparr>m_computeShaders := m(key \<mapsto> nullptr), heap := sp_release v (heap s1)\<rparr>
                 in s2\<lparr>m_computeShaders := erase (m_computeShaders s2) key\<rparr>)))"

subsection \<open>Shader programs\<close>

definition shaderProgramExists :: "string \<Rightarrow> state \<Rightarrow> bool \<times> state" where
  "shaderProgramExists key s =
     (if m_shaderPrograms s key = None then (False, s) else (True, s))"

definition getShaderProgram :: "string \<Rightarrow> state \<Rightarrow> shared_ptr \<times> state" where
  "getShaderProgram key s =
     (case shaderProgramExists key s of (found, s1) \<Rightarrow>
        if \<not> found then (nullptr, s1)
        else (case subscript (m_shaderPrograms s1) key of (v, m) \<Rightarrow>
                (v, s1\<lparr>m_shaderPrograms := m, heap := sp_copy v (heap s1)\<rparr>)))"

definition logShaderProgramAlreadyExists :: "string \<Rightarrow> state \<Rightarrow> state" where
  "logShaderProgramAlreadyExists key s =
     Log_warning ''shaderstore''
       [''Shader program with '' @ dquote, key, dquote @ '' key already exists.''] s"

definition registerShaderProgram :: "string \<Rightarrow> shared_ptr \<Rightarrow> state \<Rightarrow> bool \<times> state" where
  "registerShaderProgram key shaderProgram s =
     (case shaderProgramExists key s of (found, s1) \<Rightarrow>
        if found then (False, logShaderProgramAlreadyExists key s1)
        else (case emplace (m_shaderPrograms s1) key shaderProgram (heap s1) of (m, h) \<Rightarrow>
                (True, s1\<lparr>m_shaderPrograms := m, heap := h\<rparr>)))"

definition registerShaderProgram_raw :: "string \<Rightarrow> raw_ptr \<Rightarrow> state \<Rightarrow> bool \<times> state" where
  "registerShaderProgram_raw key shaderProgram s =
     (case sp_from_raw shaderProgram (heap s) of (tmp, h) \<Rightarrow>
        (case registerShaderProgram key tmp (s\<lparr>heap := h\<rparr>) of (r, s1) \<Rightarrow>
           (r, s1\<lparr>heap := sp_release tmp (heap s1)\<rparr>)))"

definition deleteShaderProgram :: "string \<Rightarrow> state \<Rightarrow> state" where
  "deleteShaderProgram key s =
     (case shaderProgramExists key s of (found, s1) \<Rightarrow>
        if \<not> found then s1
        else (case subscript (m_shaderPrograms s1) key of (v, m) \<Rightarrow>
                (let s2 = s1\<lparr>m_shaderPrograms := m(key \<mapsto> nullptr), heap := sp_release v (heap s1)\<rparr>
                 in s2\<lparr>m_shaderPrograms := erase (m_shaderPrograms s2) key\<rparr>)))"

section \<open>One contract, seven caches\<close>

text \<open>
  The source repeats the same five functions for each kind of resource. The functions below
  select the cache and the source function of a kind, so that a property can be stated once
  for all seven.
\<close>

datatype kind =
  VertexShader | FragmentShader | GeometryShader | TesselationEvaluationShader
  | TesselationControlShader | ComputeShader | ShaderProgram

fun cache_of :: "kind \<Rightarrow> state \<Rightarrow> cache" where
  "cache_of VertexShader = m_vertexShaders"
| "cache_of FragmentShader = m_fragmentShaders"
| "cache_of GeometryShader = m_geometryShaders"
| "cache_of TesselationEvaluationShader = m_tesselationEvaluationShaders"
| "cache_of TesselationControlShader = m_tesselationControlShaders"
| "cache_of ComputeShader = m_computeShaders"
| "cache_of ShaderProgram = m_shaderPrograms"

fun kind_name :: "kind \<Rightarrow> string" where
  "kind_name VertexShader = ''Vertex shader''"
| "kind_name FragmentShader = ''Fragment shader''"
| "kind_name GeometryShader = ''Geometry shader''"
| "kind_name TesselationEvaluationShader = ''Tesselation evaluation shader''"
| "kind_name TesselationControlShader = ''Tesselation control shader''"
| "kind_name ComputeShader = ''Compute shader''"
| "kind_name ShaderProgram = ''Shader program''"

fun store_exists :: "kind \<Rightarrow> string \<Rightarrow> state \<Rightarrow> bool \<times> state" where
  "store_exists VertexShader = vertexShaderExists"
| "store_exists FragmentShader = fragmentShaderExists"
| "store_exists GeometryShader = geometryShaderExists"
| "store_exists TesselationEvaluationShader = tesselationEvaluationShaderExists"
| "store_exists TesselationControlShader = tesselationControlShaderExists"
| "store_exists ComputeShader = computeShaderExists"
| "store_exists ShaderProgram = shaderProgramExists"

fun store_get :: "kind \<Rightarrow> string \<Rightarrow> state \<Rightarrow> shared_ptr \<times> state" where
  "store_get VertexShader = getVertexShader"
| "store_get FragmentShader = getFragmentShader"
| "store_get GeometryShader = getGeometryShader"
| "store_get TesselationEvaluationShader = getTesselationEvaluationShader"
| "store_get TesselationControlShader = getTesselationControlShader"
| "store_get ComputeShader = getComputeShader"
| "store_get ShaderProgram = getShaderProgram"

fun store_register :: "kind \<Rightarrow> string \<Rightarrow> shared_ptr \<Rightarrow> state \<Rightarrow> bool \<times> state" where
  "store_register VertexShader = registerVertexShader"
| "store_register FragmentShader = registerFragmentShader"
| "store_register GeometryShader = registerGeometryShader"
| "store_register TesselationEvaluationShader = registerTesselationEvaluationShader"
| "store_register TesselationControlShader = registerTesselationControlShader"
| "store_register ComputeShader = registerComputeShader"
| "store_register ShaderProgram = registerShaderProgram"

fun store_registerFromOwned :: "kind \<Rightarrow> string \<Rightarrow> raw_ptr \<Rightarrow> state \<Rightarrow> bool \<times> state" where
  "store_registerFromOwned VertexShader = registerVertexShader_raw"
| "store_registerFromOwned FragmentShader = registerFragmentShader_raw"
| "store_registerFromOwned GeometryShader = registerGeometryShader_raw"
| "store_registerFromOwned TesselationEvaluationShader = registerTesselationEvaluationShader_raw"
| "store_registerFromOwned TesselationControlShader = registerTesselationControlShader_raw"
| "store_registerFromOwned ComputeShader = registerComputeShader_raw"
| "store_registerFromOwned ShaderProgram = registerShaderProgram_raw"

fun store_delete :: "kind \<Rightarrow> string \<Rightarrow> state \<Rightarrow> state" where
  "store_delete VertexShader = deleteVertexShader"
| "store_delete FragmentShader = deleteFragmentShader"
| "store_delete GeometryShader = deleteGeometryShader"
| "store_delete TesselationEvaluationShader = deleteTesselationEvaluationShader"
| "store_delete TesselationControlShader = deleteTesselationControlShader"
| "store_delete ComputeShader = deleteComputeShader"
| "store_delete ShaderProgram = deleteShaderProgram"

definition collision :: "kind \<Rightarrow> string \<Rightarrow> log_entry" where
  "collision kd k =
     Warning ''shaderstore''
       [kind_name kd @ '' with '' @ dquote, k, dquote @ '' key already exists.'']"

text \<open>
  The static maps are default-constructed, so the store starts empty. The heap of the second
  state holds three live objects: object 1 and object 2 each have one owner outside the
  store (control blocks 0 and 1), object 7 has just been created and has no owner yet.
\<close>

definition initial :: state where
  "initial =
     \<lparr>m_vertexShaders = Map.empty, m_fragmentShaders = Map.empty,
      m_geometryShaders = Map.empty, m_tesselationEvaluationShaders = Map.empty,
      m_tesselationControlShaders = Map.empty, m_computeShaders = Map.empty,
      m_shaderPrograms = Map.empty, logged = [],
      heap = \<lparr>alive = (\<lambda>a. False), blocks = Map.empty, next_block = 0\<rparr>\<rparr>"

definition populated :: state where
  "populated =
     initial\<lparr>heap :=
       \<lparr>alive = (\<lambda>a. a = 1 \<or> a = 2 \<or> a = 7),
        blocks = [0 \<mapsto> \<lparr>use_count = 1, owned = Some 1\<rparr>,
                  1 \<mapsto> \<lparr>use_count = 1, owned = Some 2\<rparr>],
        next_block = 2\<rparr>\<rparr>"

definition handleA :: shared_ptr where
  "handleA = SharedPtr (Some 0) (Some 1)"

definition handleB :: shared_ptr where
  "handleB = SharedPtr (Some 1) (Some 2)"

definition occupied :: state where
  "occupied = populated\<lparr>m_vertexShaders := [''basic.vert'' \<mapsto> handleA]\<rparr>"

section \<open>Clock\<close>

text \<open>
  Modelled from the spec: the sources hold the declaration of \<^verbatim>\<open>tw::Clock\<close> only; the
  bodies of its member functions are missing and follow section 4.1 of the specification.
  The class has one data member, the reset time point. A time point is a count of
  nanoseconds of the monotonic clock, and the current reading of that clock is an argument
  of every operation. Each member function returns its result together with the clock
  object after the call.
\<close>

type_synonym time_point = int

record Clock =
  m_resetTime :: time_point

definition Clock_new :: "time_point \<Rightarrow> Clock" where
  "Clock_new now = \<lparr>m_resetTime = now\<rparr>"

text \<open>Conversion of a duration to a coarser unit truncates towards zero.\<close>

definition duration_cast :: "int \<Rightarrow> int \<Rightarrow> int" where
  "duration_cast ratio d = (if d < 0 then - ((- d) div ratio) else d div ratio)"

definition getResetTime :: "Clock \<Rightarrow> time_point \<times> Clock" where
  "getResetTime c = (m_resetTime c, c)"

definition getElapsedNanoseconds :: "time_point \<Rightarrow> Clock \<Rightarrow> int \<times> Clock" where
  "getElapsedNanoseconds now c = (now - m_resetTime c, c)"

definition getElapsedMicroseconds :: "time_point \<Rightarrow> Clock \<Rightarrow> int \<times> Clock" where
  "getElapsedMicroseconds now c = (duration_cast 1000 (now - m_resetTime c), c)"

definition getElapsedMilliseconds :: "time_point \<Rightarrow> Clock \<Rightarrow> int \<times> Clock" where
  "getElapsedMilliseconds now c = (duration_cast 1000000 (now - m_resetTime c), c)"

definition getElapsedSeconds :: "time_point \<Rightarrow> Clock \<Rightarrow> rat \<times> Clock" where
  "getElapsedSeconds now c = (of_int (now - m_resetTime c) / 1000000000, c)"

definition reset :: "time_point \<Rightarrow> Clock \<Rightarrow> Clock" where
  "reset now c = c\<lparr>m_resetTime := now\<rparr>"

section \<open>The update loop of the frame scheduler\<close>

text \<open>
  Modelled from the spec: the sources hold the declaration of \<^verbatim>\<open>GameLoop\<close> only; the body
  of \<^verbatim>\<open>GameLoop::update\<close> is missing and follows the update-loop algorithm of section 4.3
  of the specification. Seconds are exact rational numbers here. The state of the loop is
  its accumulator and the record of the calls of the simulation update callback, each with
  the delta it received. The elapsed time that the clock reports in one iteration is an
  input; a run of the loop is the list of these readings up to the iteration that observes
  the stop signal.
\<close>

record update_state =
  accumulator :: rat
  deltas :: "rat list"

definition tick_interval :: "nat \<Rightarrow> rat" where
  "tick_interval tickRate = 1 / of_nat tickRate"

text \<open>
  While the accumulator exceeds the tick interval: call the update callback with the fixed
  delta and take one interval off the accumulator.
\<close>

partial_function (option) catch_up :: "rat \<Rightarrow> update_state \<Rightarrow> update_state option" where
  "catch_up dt u =
     (if dt < accumulator u
      then catch_up dt (u\<lparr>accumulator := accumulator u - dt, deltas := deltas u @ [dt]\<rparr>)
      else Some u)"

text \<open>One iteration: add the measured elapsed time, then catch up.\<close>

definition update_iteration :: "nat \<Rightarrow> rat \<Rightarrow> update_state \<Rightarrow> update_state option" where
  "update_iteration tickRate elapsed u =
     catch_up (tick_interval tickRate) (u\<lparr>accumulator := accumulator u + elapsed\<rparr>)"

fun update :: "nat \<Rightarrow> rat list \<Rightarrow> update_state \<Rightarrow> update_state option" where
  "update tickRate [] u = Some u"
| "update tickRate (elapsed # rest) u =
     (case update_iteration tickRate elapsed u of
        None \<Rightarrow> None
      | Some u' \<Rightarrow> update tickRate rest u')"

section \<open>Properties of the shader store\<close>

subsection \<open>The source functions, kind by kind\<close>

lemmas exists_defs =
  vertexShaderExists_def fragmentShaderExists_def geometryShaderExists_def
  tesselationEvaluationShaderExists_def tesselationControlShaderExists_def
  computeShaderExists_def shaderProgramExists_def

lemmas get_defs =
  getVertexShader_def getFragmentShader_def getGeometryShader_def
  getTesselationEvaluationShader_def getTesselationControlShader_def
  getComputeShader_def getShaderProgram_def

lemmas log_defs =
  logVertexShaderAlreadyExists_def logFragmentShaderAlreadyExists_def
  logGeometryShaderAlreadyExists_def logTesselationEvaluationShaderAlreadyExists_def
  logTesselationControlShaderAlreadyExists_def logComputeShaderAlreadyExists_def
  logShaderProgramAlreadyExists_def Log_warning_def

lemmas register_defs =
  registerVertexShader_def registerFragmentShader_def registerGeometryShader_def
  registerTesselationEvaluationShader_def registerTesselationControlShader_def
  registerComputeShader_def registerShaderProgram_def

lemmas register_raw_defs =
  registerVertexShader_raw_def registerFragmentShader_raw_def registerGeometryShader_raw_def
  registerTesselationEvaluationShader_raw_def registerTesselationControlShader_raw_def
  registerComputeShader_raw_def registerShaderProgram_raw_def

lemmas delete_defs =
  deleteVertexShader_def deleteFragmentShader_def deleteGeometryShader_def
  deleteTesselationEvaluationShader_def deleteTesselationControlShader_def
  deleteComputeShader_def deleteShaderProgram_def

lemma exists_simps:
  "vertexShaderExists k s = (m_vertexShaders s k \<noteq> None, s)"
  "fragmentShaderExists k s = (m_fragmentShaders s k \<noteq> None, s)"
  "geometryShaderExists k s = (m_geometryShaders s k \<noteq> None, s)"
  "tesselationEvaluationShaderExists k s = (m_tesselationEvaluationShaders s k \<noteq> None, s)"
  "tesselationControlShaderExists k s = (m_tesselationControlShaders s k \<noteq> None, s)"
  "computeShaderExists k s = (m_computeShaders s k \<noteq> None, s)"
  "shaderProgramExists k s = (m_shaderPrograms s k \<noteq> None, s)"
  by (simp_all add: exists_defs)

lemma store_exists_eq:
  "store_exists kd k s = (cache_of kd s k \<noteq> None, s)"
  by (cases kd) (simp_all add: exists_simps)

lemma store_get_eq:
  "store_get kd k s =
     (case cache_of kd s k of
        None \<Rightarrow> (nullptr, s)
      | Some v \<Rightarrow> (v, s\<lparr>heap := sp_copy v (heap s)\<rparr>))"
  by (cases kd) (simp_all add: get_defs exists_simps subscript_def split: option.split)

lemma cache_of_heap_update: "cache_of kd (s\<lparr>heap := h\<rparr>) = cache_of kd s"
  by (cases kd) simp_all

lemma cache_of_logged_update: "cache_of kd (s\<lparr>logged := l\<rparr>) = cache_of kd s"
  by (cases kd) simp_all

lemma store_delete_eq:
  "store_delete kd k s =
     (case cache_of kd s k of
        None \<Rightarrow> s
      | Some v \<Rightarrow>
          (case kd of
             VertexShader \<Rightarrow> s\<lparr>m_vertexShaders := (m_vertexShaders s)(k := None), heap := sp_release v (heap s)\<rparr>
           | FragmentShader \<Rightarrow> s\<lparr>m_fragmentShaders := (m_fragmentShaders s)(k := None), heap := sp_release v (heap s)\<rparr>
           | GeometryShader \<Rightarrow> s\<lparr>m_geometryShaders := (m_geometryShaders s)(k := None), heap := sp_release v (heap s)\<rparr>
           | TesselationEvaluationShader \<Rightarrow> s\<lparr>m_tesselationEvaluationShaders := (m_tesselationEvaluationShaders s)(k := None), heap := sp_release v (heap s)\<rparr>
           | TesselationControlShader \<Rightarrow> s\<lparr>m_tesselationControlShaders := (m_tesselationControlShaders s)(k := None), heap := sp_release v (heap s)\<rparr>
           | ComputeShader \<Rightarrow> s\<lparr>m_computeShaders := (m_computeShaders s)(k := None), heap := sp_release v (heap s)\<rparr>
           | ShaderProgram \<Rightarrow> s\<lparr>m_shaderPrograms := (m_shaderPrograms s)(k := None), heap := sp_release v (heap s)\<rparr>))"
  by (cases kd) (simp_all add: delete_defs exists_simps subscript_def erase_def Let_def split: option.split)

lemma cache_of_store_delete:
  "cache_of kd (store_delete kd k s) = (cache_of kd s)(k := None)"
  unfolding store_delete_eq by (cases kd) (auto split: option.split)

subsection \<open>Registration\<close>

text \<open>
  Claim C1. For each of the seven caches: when the key is absent, registering \<open>h1\<close> returns
  true and the cache becomes the old one with \<open>h1\<close> under the key. Registering \<open>h2\<close> under
  the same key afterwards returns false; the state it leaves is the state before it with one
  warning appended to the log, whose parts name the kind and the key; so the cache still maps
  the key to \<open>h1\<close>, and a lookup of the key yields \<open>h1\<close>.
\<close>

theorem register_never_overwrites:
  assumes "\<not> fst (store_exists kd k s)"
  shows "(case store_register kd k h1 s of (r1, s1) \<Rightarrow>
            r1 \<and> cache_of kd s1 = (cache_of kd s)(k \<mapsto> h1) \<and>
            (case store_register kd k h2 s1 of (r2, s2) \<Rightarrow>
               \<not> r2 \<and> s2 = s1\<lparr>logged := logged s1 @ [collision kd k]\<rparr> \<and>
               fst (store_get kd k s2) = h1))"
  using assms
  by (cases kd)
     (simp_all add: register_defs exists_simps get_defs log_defs emplace_def subscript_def
        collision_def)

theorem register_never_overwrites_witness:
  "\<not> fst (store_exists VertexShader ''basic.vert'' populated) \<and>
   (case store_register VertexShader ''basic.vert'' handleA populated of (r1, s1) \<Rightarrow>
      r1 \<and> cache_of VertexShader s1 ''basic.vert'' = Some handleA \<and>
      (case store_register VertexShader ''basic.vert'' handleB s1 of (r2, s2) \<Rightarrow>
         \<not> r2 \<and>
         logged s2 =
           [Warning ''shaderstore''
              [''Vertex shader with '' @ dquote, ''basic.vert'', dquote @ '' key already exists.'']] \<and>
         fst (store_get VertexShader ''basic.vert'' s2) = handleA))"
  using register_never_overwrites[of VertexShader "''basic.vert''" populated handleA handleB]
  by (simp add: populated_def initial_def exists_simps registerVertexShader_def emplace_def
        getVertexShader_def subscript_def logVertexShaderAlreadyExists_def Log_warning_def
        sp_copy_def handleA_def handleB_def collision_def)

text \<open>
  Claim C9. For each cache: a handle whose stored pointer is null is registered under an
  absent key like any other handle. The call returns true, the key exists afterwards, and
  a lookup returns that null handle. The lookup of the key before the registration returned
  a null handle as well, so the two situations look the same through the lookup alone.
\<close>

theorem register_null_handle:
  assumes "\<not> fst (store_exists kd k s)" and "sp_get h = None"
  shows "(case store_register kd k h s of (r, s1) \<Rightarrow>
            r \<and> fst (store_exists kd k s1) \<and> fst (store_get kd k s1) = h \<and>
            sp_get (fst (store_get kd k s1)) = sp_get (fst (store_get kd k s)))"
  using assms
  by (cases kd)
     (simp_all add: register_defs exists_simps get_defs emplace_def subscript_def)

theorem register_null_handle_witness:
  "\<not> fst (store_exists ShaderProgram ''basic'' initial) \<and> sp_get nullptr = None \<and>
   (case store_register ShaderProgram ''basic'' nullptr initial of (r, s1) \<Rightarrow>
      r \<and> fst (store_exists ShaderProgram ''basic'' s1) \<and>
      fst (store_get ShaderProgram ''basic'' s1) = nullptr \<and>
      fst (store_get ShaderProgram ''basic'' initial) = nullptr)"
  using register_null_handle[of ShaderProgram "''basic''" initial nullptr]
  by (simp add: initial_def exists_simps registerShaderProgram_def emplace_def
        getShaderProgram_def subscript_def sp_copy_def)

text \<open>
  Claim C5. For each cache: the overload taking a raw pointer returns what the overload
  taking a shared pointer returns on the wrapped pointer, which is true exactly when the key
  was absent. When the key exists, the call returns false, no cache changes, one warning is
  logged, the object behind the raw pointer is no longer alive while every other object is as
  before, and the control block made for it is gone.
\<close>

theorem registerFromOwned_collision_destroys:
  "fst (store_registerFromOwned kd k p s) = (\<not> fst (store_exists kd k s)) \<and>
   fst (store_registerFromOwned kd k p s) =
     fst (store_register kd k (fst (sp_from_raw p (heap s)))
            (s\<lparr>heap := snd (sp_from_raw p (heap s))\<rparr>)) \<and>
   (fst (store_exists kd k s) \<longrightarrow>
      (case store_registerFromOwned kd k (Some a) s of (r, s') \<Rightarrow>
         \<not> r \<and> (\<forall>kd'. cache_of kd' s' = cache_of kd' s) \<and>
         logged s' = logged s @ [collision kd k] \<and>
         \<not> alive (heap s') a \<and> (\<forall>b. b \<noteq> a \<longrightarrow> alive (heap s') b = alive (heap s) b) \<and>
         blocks (heap s') = (blocks (heap s))(next_block (heap s) := None)))"
  by (cases kd)
     (auto simp add: register_raw_defs register_defs exists_simps log_defs emplace_def
        sp_from_raw_def sp_release_def delete_raw_def collision_def Let_def
        cache_of_heap_update cache_of_logged_update split: option.split)

theorem registerFromOwned_collision_destroys_witness:
  "fst (store_exists VertexShader ''basic.vert'' occupied) \<and> alive (heap occupied) 7 \<and>
   (case store_registerFromOwned VertexShader ''basic.vert'' (Some 7) occupied of (r, s') \<Rightarrow>
      \<not> r \<and> cache_of VertexShader s' ''basic.vert'' = Some handleA \<and>
      \<not> alive (heap s') 7 \<and> alive (heap s') 1 \<and> blocks (heap s') 2 = None)"
  using registerFromOwned_collision_destroys[of VertexShader "''basic.vert''" "Some 7" occupied 7]
  by (simp add: occupied_def populated_def initial_def exists_simps registerVertexShader_raw_def
        registerVertexShader_def logVertexShaderAlreadyExists_def Log_warning_def
        sp_from_raw_def sp_release_def delete_raw_def handleA_def collision_def Let_def)

text \<open>
  When the key is absent the same overload stores the wrapped pointer, and after the
  temporary is gone the cache is the only owner: the object stays alive. Deleting the key
  then releases the last owner, and the object is destroyed.
\<close>

lemma registerFromOwned_absent_keeps_resource:
  assumes "\<not> fst (store_exists kd k s)"
  shows "(case store_registerFromOwned kd k p s of (r, s') \<Rightarrow>
            r \<and>
            cache_of kd s' = (cache_of kd s)(k \<mapsto> SharedPtr (Some (next_block (heap s))) p) \<and>
            alive (heap s') = alive (heap s) \<and>
            blocks (heap s') (next_block (heap s)) = Some \<lparr>use_count = 1, owned = p\<rparr>)"
  using assms
  by (cases kd)
     (simp_all add: register_raw_defs register_defs exists_simps emplace_def
        sp_from_raw_def sp_copy_def sp_release_def Let_def)

lemma delete_last_owner_destroys:
  "(case store_registerFromOwned VertexShader ''basic.vert'' (Some 7) populated of (r, s1) \<Rightarrow>
      alive (heap s1) 7 \<and> \<not> alive (heap (store_delete VertexShader ''basic.vert'' s1)) 7)"
  by (simp add: populated_def initial_def exists_simps registerVertexShader_raw_def
        registerVertexShader_def deleteVertexShader_def emplace_def subscript_def erase_def
        sp_from_raw_def sp_copy_def sp_release_def delete_raw_def Let_def)

subsection \<open>Lookup\<close>

text \<open>
  Claim C4. For each cache: a lookup returns the stored handle when the key has an entry and
  the empty pointer when it has none. The function has no failing branch: it is total and
  its result is always a handle.
\<close>

theorem get_returns_stored_or_null:
  "fst (store_get kd k s) = (case cache_of kd s k of None \<Rightarrow> nullptr | Some h \<Rightarrow> h)"
  by (simp add: store_get_eq split: option.split)

text \<open>
  Claim C10. For each cache: the existence check returns the state it was given. A lookup
  returns the state it was given except that the returned copy counts as one more owner on
  the heap; every cache and the log are as before.
\<close>

theorem queries_leave_store_unchanged:
  "snd (store_exists kd k s) = s \<and>
   snd (store_get kd k s) = s\<lparr>heap := sp_copy (fst (store_get kd k s)) (heap s)\<rparr> \<and>
   cache_of kd' (snd (store_get kd k s)) = cache_of kd' s \<and>
   logged (snd (store_get kd k s)) = logged s"
  by (simp add: store_exists_eq store_get_eq cache_of_heap_update sp_copy_def split: option.split)

subsection \<open>Deletion\<close>

text \<open>
  Claim C6. For each cache: deleting an absent key returns the state unchanged, so neither
  the number of entries nor any entry changes; and deleting a key twice gives the same state
  as deleting it once.
\<close>

theorem delete_absent_noop_idempotent:
  "(\<not> fst (store_exists kd k s) \<longrightarrow> store_delete kd k s = s) \<and>
   store_delete kd k (store_delete kd k s) = store_delete kd k s"
proof -
  have "cache_of kd (store_delete kd k s) k = None"
    by (simp add: cache_of_store_delete)
  then have "store_delete kd k (store_delete kd k s) = store_delete kd k s"
    by (subst store_delete_eq) simp
  moreover have "\<not> fst (store_exists kd k s) \<longrightarrow> store_delete kd k s = s"
    by (simp add: store_exists_eq store_delete_eq)
  ultimately show ?thesis by simp
qed

theorem delete_absent_noop_idempotent_witness:
  "\<not> fst (store_exists FragmentShader ''basic.frag'' populated) \<and>
   store_delete FragmentShader ''basic.frag'' populated = populated"
  using delete_absent_noop_idempotent[of FragmentShader "''basic.frag''" populated]
  by (simp add: populated_def initial_def exists_simps)

text \<open>
  Claim C7. For each cache and every state: after deleting a key, the existence check of the
  key is false and its lookup returns the empty pointer.
\<close>

theorem delete_removes_mapping:
  "\<not> fst (store_exists kd k (store_delete kd k s)) \<and>
   fst (store_get kd k (store_delete kd k s)) = nullptr"
  by (simp add: store_exists_eq store_get_eq cache_of_store_delete)

section \<open>Properties of the clock\<close>

text \<open>
  Claim C8. A clock is determined by its reset time point. Construction sets it to the
  current time and so does \<open>reset\<close>; the four elapsed-time queries and \<open>getResetTime\<close> return
  the clock as they received it.
\<close>

theorem clock_mutated_only_by_reset:
  "c = \<lparr>m_resetTime = m_resetTime c\<rparr> \<and>
   m_resetTime (Clock_new now) = now \<and>
   m_resetTime (reset now c) = now \<and>
   getResetTime c = (m_resetTime c, c) \<and>
   snd (getElapsedSeconds now c) = c \<and>
   snd (getElapsedMilliseconds now c) = c \<and>
   snd (getElapsedMicroseconds now c) = c \<and>
   snd (getElapsedNanoseconds now c) = c"
  by (simp add: Clock_new_def reset_def getResetTime_def getElapsedSeconds_def
        getElapsedMilliseconds_def getElapsedMicroseconds_def getElapsedNanoseconds_def)

section \<open>Properties of the update loop\<close>

text \<open>
  The inner loop ends whenever the tick interval is positive; it leaves between nothing and
  one interval in the accumulator.
\<close>

lemma catch_up_result:
  assumes "0 < dt" and "0 \<le> accumulator u"
  shows "\<exists>n. catch_up dt u =
           Some (u\<lparr>accumulator := accumulator u - of_nat n * dt,
                   deltas := deltas u @ replicate n dt\<rparr>) \<and>
           0 \<le> accumulator u - of_nat n * dt \<and>
           (accumulator u - of_nat n * dt \<le> dt)"
  using assms
proof (induction "nat \<lfloor>accumulator u / dt\<rfloor>" arbitrary: u rule: less_induct)
  case less
  show ?case
  proof (cases "dt < accumulator u")
    case False
    then have "catch_up dt u = Some u"
      by (subst catch_up.simps) simp
    with False less.prems show ?thesis
      by (intro exI[of _ 0]) simp
  next
    case True
    let ?u = "u\<lparr>accumulator := accumulator u - dt, deltas := deltas u @ [dt]\<rparr>"
    have step: "catch_up dt u = catch_up dt ?u"
      using True by (subst catch_up.simps) simp
    have "accumulator ?u / dt = accumulator u / dt - 1"
      using less.prems(1) by (simp add: diff_divide_distrib)
    moreover have "1 \<le> accumulator u / dt"
      using True less.prems(1) by simp
    then have "1 \<le> \<lfloor>accumulator u / dt\<rfloor>" by linarith
    ultimately have "nat \<lfloor>accumulator ?u / dt\<rfloor> < nat \<lfloor>accumulator u / dt\<rfloor>"
      by simp
    moreover have "0 \<le> accumulator ?u" using True less.prems(1) by simp
    ultimately obtain n where n:
      "catch_up dt ?u = Some (?u\<lparr>accumulator := accumulator ?u - of_nat n * dt,
                                 deltas := deltas ?u @ replicate n dt\<rparr>)"
      "0 \<le> accumulator ?u - of_nat n * dt" "accumulator ?u - of_nat n * dt \<le> dt"
      using less.hyps[of ?u] less.prems(1) by blast
    have "catch_up dt u =
            Some (u\<lparr>accumulator := accumulator u - of_nat (Suc n) * dt,
                    deltas := deltas u @ replicate (Suc n) dt\<rparr>)"
      using n(1) step by (simp add: algebra_simps)
    moreover have "0 \<le> accumulator u - of_nat (Suc n) * dt"
      using n(2) by (simp add: algebra_simps)
    moreover have "accumulator u - of_nat (Suc n) * dt \<le> dt"
      using n(3) by (simp add: algebra_simps)
    ultimately show ?thesis by blast
  qed
qed

lemma update_result:
  assumes "0 < dt" and "dt = tick_interval R"
    and "\<forall>e\<in>set es. 0 \<le> e"
    and "0 \<le> accumulator u" and "accumulator u \<le> dt"
  shows "\<exists>n. update R es u =
           Some (u\<lparr>accumulator := accumulator u + sum_list es - of_nat n * dt,
                   deltas := deltas u @ replicate n dt\<rparr>) \<and>
           0 \<le> accumulator u + sum_list es - of_nat n * dt \<and>
           accumulator u + sum_list es - of_nat n * dt \<le> dt"
  using assms(3-)
proof (induction es arbitrary: u)
  case Nil
  then show ?case by (intro exI[of _ 0]) simp
next
  case (Cons e es)
  let ?v = "u\<lparr>accumulator := accumulator u + e\<rparr>"
  have "0 \<le> accumulator ?v" using Cons.prems by simp
  from catch_up_result[OF assms(1) this] obtain n where n:
    "catch_up dt ?v = Some (?v\<lparr>accumulator := accumulator ?v - of_nat n * dt,
                               deltas := deltas ?v @ replicate n dt\<rparr>)"
    "0 \<le> accumulator ?v - of_nat n * dt" "accumulator ?v - of_nat n * dt \<le> dt"
    by blast
  let ?w = "?v\<lparr>accumulator := accumulator ?v - of_nat n * dt,
                deltas := deltas ?v @ replicate n dt\<rparr>"
  have "\<forall>e\<in>set es. 0 \<le> e" using Cons.prems by simp
  moreover have "0 \<le> accumulator ?w" "accumulator ?w \<le> dt" using n(2,3) by simp_all
  ultimately obtain m where m:
    "update R es ?w =
       Some (?w\<lparr>accumulator := accumulator ?w + sum_list es - of_nat m * dt,
                deltas := deltas ?w @ replicate m dt\<rparr>)"
    "0 \<le> accumulator ?w + sum_list es - of_nat m * dt"
    "accumulator ?w + sum_list es - of_nat m * dt \<le> dt"
    using Cons.IH[of ?w] by blast
  have acc: "accumulator ?w + sum_list es - of_nat m * dt =
             accumulator u + sum_list (e # es) - of_nat (n + m) * dt"
    by (simp add: algebra_simps)
  have "update R (e # es) u = update R es ?w"
    using n(1) assms(2) by (simp add: update_iteration_def)
  also have "\<dots> = Some (?w\<lparr>accumulator := accumulator u + sum_list (e # es) - of_nat (n + m) * dt,
                             deltas := deltas ?w @ replicate m dt\<rparr>)"
    unfolding m(1) acc ..
  also have "\<dots> = Some (u\<lparr>accumulator := accumulator u + sum_list (e # es) - of_nat (n + m) * dt,
                           deltas := deltas u @ replicate (n + m) dt\<rparr>)"
    by (simp add: replicate_add)
  finally have "update R (e # es) u =
      Some (u\<lparr>accumulator := accumulator u + sum_list (e # es) - of_nat (n + m) * dt,
              deltas := deltas u @ replicate (n + m) dt\<rparr>)" .
  moreover have "0 \<le> accumulator u + sum_list (e # es) - of_nat (n + m) * dt"
    using m(2) by (simp add: algebra_simps)
  moreover have "accumulator u + sum_list (e # es) - of_nat (n + m) * dt \<le> dt"
    using m(3) by (simp add: algebra_simps)
  ultimately show ?case by blast
qed

text \<open>
  Claim C2. For a tick rate \<open>R > 0\<close>, readings of elapsed time that are never negative and
  add up to \<open>T\<close> seconds, and a start with at most one tick interval in the accumulator (no
  backlog): the loop returns, it has called the update callback \<open>n\<close> more times, each time
  with delta \<open>1 / R\<close>, it has taken \<open>n\<close> intervals off the accumulator, and \<open>n\<close> lies between
  \<open>\<lceil>R * T\<rceil> - 1\<close> and \<open>\<lceil>R * T\<rceil> + 1\<close>.
\<close>

theorem update_tick_count:
  assumes "0 < R" and "\<forall>e\<in>set es. 0 \<le> e"
    and "0 \<le> accumulator u" and "accumulator u \<le> tick_interval R"
  shows "\<exists>n. update R es u =
           Some (u\<lparr>accumulator := accumulator u + sum_list es - of_nat n * tick_interval R,
                   deltas := deltas u @ replicate n (1 / of_nat R)\<rparr>) \<and>
           \<lceil>of_nat R * sum_list es\<rceil> - 1 \<le> int n \<and> int n \<le> \<lceil>of_nat R * sum_list es\<rceil> + 1"
proof -
  let ?dt = "tick_interval R"
  let ?T = "sum_list es"
  have dt: "0 < ?dt" using assms(1) by (simp add: tick_interval_def)
  from update_result[OF dt refl assms(2,3,4)] obtain n where n:
    "update R es u =
       Some (u\<lparr>accumulator := accumulator u + ?T - of_nat n * ?dt,
               deltas := deltas u @ replicate n ?dt\<rparr>)"
    "0 \<le> accumulator u + ?T - of_nat n * ?dt"
    "accumulator u + ?T - of_nat n * ?dt \<le> ?dt"
    by blast
  have R: "(0::rat) < of_nat R" using assms(1) by simp
  have "of_nat n / of_nat R \<le> accumulator u + ?T"
    using n(2) by (simp add: tick_interval_def)
  then have up: "of_nat n \<le> (accumulator u + ?T) * of_nat R"
    using R by (simp only: pos_divide_le_eq)
  have "accumulator u \<le> 1 / of_nat R"
    using assms(4) by (simp add: tick_interval_def)
  then have a1: "accumulator u * of_nat R \<le> 1"
    using R by (simp only: pos_le_divide_eq)
  have a0: "0 \<le> accumulator u * of_nat R"
    using assms(3) by simp
  have "accumulator u + ?T \<le> (1 + of_nat n) / of_nat R"
    using n(3) by (simp add: tick_interval_def add_divide_distrib)
  then have lo: "(accumulator u + ?T) * of_nat R \<le> 1 + of_nat n"
    using R by (simp only: pos_le_divide_eq)
  have "of_nat R * ?T \<le> of_int (int n + 1)"
    using lo a0 by (simp add: algebra_simps)
  then have "\<lceil>of_nat R * ?T\<rceil> \<le> int n + 1"
    by (simp only: ceiling_le_iff)
  moreover have "of_nat n \<le> of_nat R * ?T + 1"
    using up a1 by (simp add: algebra_simps)
  then have "of_nat n \<le> of_int \<lceil>of_nat R * ?T\<rceil> + (1::rat)"
    using le_of_int_ceiling[of "of_nat R * ?T"] by linarith
  then have "of_int (int n) \<le> (of_int (\<lceil>of_nat R * ?T\<rceil> + 1) :: rat)"
    by simp
  then have "int n \<le> \<lceil>of_nat R * ?T\<rceil> + 1"
    by (simp only: of_int_le_iff)
  ultimately show ?thesis using n(1) by (intro exI[of _ n]) (simp add: tick_interval_def)
qed

theorem update_tick_count_witness:
  "0 < (2::nat) \<and> 0 \<le> sum_list [1, 1/4, 1::rat] \<and>
   0 \<le> accumulator \<lparr>accumulator = 0, deltas = []\<rparr> \<and>
   accumulator \<lparr>accumulator = 0, deltas = []\<rparr> \<le> tick_interval 2 \<and>
   update 2 [1, 1/4, 1] \<lparr>accumulator = 0, deltas = []\<rparr> =
     Some \<lparr>accumulator = 1/4, deltas = replicate 4 (1/2)\<rparr> \<and>
   (\<exists>n. update 2 [1, 1/4, 1] \<lparr>accumulator = 0, deltas = []\<rparr> =
           Some (\<lparr>accumulator = 0, deltas = []\<rparr>
                   \<lparr>accumulator := accumulator \<lparr>accumulator = 0, deltas = []\<rparr> + sum_list [1, 1/4, 1] - of_nat n * tick_interval 2,
                   deltas := deltas \<lparr>accumulator = 0, deltas = []\<rparr> @ replicate n (1 / of_nat 2)\<rparr>) \<and>
           \<lceil>of_nat 2 * sum_list [1, 1/4, 1::rat]\<rceil> - 1 \<le> int n \<and> int n \<le> \<lceil>of_nat 2 * sum_list [1, 1/4, 1::rat]\<rceil> + 1)"
  using update_tick_count[of 2 "[1, 1/4, 1]" "\<lparr>accumulator = 0, deltas = []\<rparr>"]
  by (simp add: tick_interval_def catch_up.simps update_iteration_def numeral_eq_Suc)

end
